theory Spec2Isabelle
  imports Complex_Main
begin

section \<open>The Python runtime functions that \<open>table.py\<close> calls\<close>

text \<open>
  A Python \<open>str\<close> is modelled as a \<open>char list\<close> whose characters are the code points
  below 256. On that range the characters that \<open>str.strip()\<close> and \<open>str.split()\<close> treat
  as whitespace are 0x09 to 0x0D, 0x1C to 0x20, 0x85 and 0xA0, and the decimal digits
  accepted by \<open>int()\<close> and \<open>float()\<close> are \<open>0\<close> to \<open>9\<close>.
\<close>

definition is_space :: "char \<Rightarrow> bool" where
  "is_space c =
     (let n = (of_char c :: nat)
      in (9 \<le> n \<and> n \<le> 13) \<or> (28 \<le> n \<and> n \<le> 32) \<or> n = 133 \<or> n = 160)"

text \<open>\<open>s.strip()\<close>: whitespace removed at both ends.\<close>

definition strip :: "string \<Rightarrow> string" where
  "strip s = rev (dropWhile is_space (rev (dropWhile is_space s)))"

text \<open>
  \<open>s.split()\<close>: the maximal runs of characters that are not whitespace, in order.
  \<open>cur\<close> is the token being read.
\<close>

fun split_acc :: "string \<Rightarrow> string \<Rightarrow> string list" where
  "split_acc cur [] = (if cur = [] then [] else [cur])"
| "split_acc cur (c # cs) =
     (if is_space c then (if cur = [] then split_acc [] cs else cur # split_acc [] cs)
      else split_acc (cur @ [c]) cs)"

definition split_ws :: "string \<Rightarrow> string list" where
  "split_ws s = split_acc [] s"

text \<open>
  \<open>s.split('\n')\<close>: the pieces between line feeds; always at least one piece, and empty
  pieces are kept.
\<close>

fun split_sep :: "char \<Rightarrow> string \<Rightarrow> string \<Rightarrow> string list" where
  "split_sep d cur [] = [cur]"
| "split_sep d cur (c # cs) =
     (if c = d then cur # split_sep d [] cs else split_sep d (cur @ [c]) cs)"

definition split_nl :: "string \<Rightarrow> string list" where
  "split_nl s = split_sep (CHR 0x0A) [] s"

text \<open>\<open>s.replace(',', '')\<close>.\<close>

definition remove_commas :: "string \<Rightarrow> string" where
  "remove_commas s = filter (\<lambda>c. c \<noteq> CHR '','') s"

subsection \<open>\<open>int(s)\<close> on a string\<close>

definition is_digit :: "char \<Rightarrow> bool" where
  "is_digit c = (48 \<le> (of_char c :: nat) \<and> (of_char c :: nat) \<le> 57)"

definition digit_val :: "char \<Rightarrow> nat" where
  "digit_val c = of_char c - 48"

text \<open>
  A digit part is a non-empty run of digits in which single underscores may stand
  between two digits (\<open>1_000\<close>, but not \<open>_1\<close>, \<open>1_\<close> or \<open>1__0\<close>).
\<close>

fun digitpart :: "string \<Rightarrow> bool" where
  "digitpart [] = False"
| "digitpart [c] = is_digit c"
| "digitpart (c # d # cs) =
     (is_digit c \<and> (if d = CHR ''_'' then digitpart cs else digitpart (d # cs)))"

definition digits_val :: "string \<Rightarrow> nat" where
  "digits_val s = foldl (\<lambda>a c. 10 * a + digit_val c) 0 (filter (\<lambda>c. c \<noteq> CHR ''_'') s)"

definition split_sign :: "string \<Rightarrow> bool \<times> string" where
  "split_sign s =
     (case s of
        [] \<Rightarrow> (False, [])
      | c # cs \<Rightarrow>
          if c = CHR ''-'' then (True, cs)
          else if c = CHR ''+'' then (False, cs)
          else (False, s))"

text \<open>
  \<open>int(s)\<close> in base 10: surrounding whitespace is ignored, one sign is allowed, the rest
  is a digit part. \<open>None\<close> stands for the \<open>ValueError\<close> that \<open>int\<close> raises. The
  interpreter's configurable cap on the number of digits is not modelled.
\<close>

definition py_int :: "string \<Rightarrow> int option" where
  "py_int s =
     (let (neg, body) = split_sign (strip s)
      in if digitpart body
         then Some (if neg then - int (digits_val body) else int (digits_val body))
         else None)"

subsection \<open>\<open>float(s)\<close> on a string\<close>

text \<open>
  A Python float is modelled by the number it denotes: a finite float by a rational,
  next to the two infinities and NaN. Rounding to the 64-bit binary format and the sign
  of zero are not modelled: \<open>Fin r\<close> carries the exact value read or computed.
\<close>

datatype pyfloat = Fin rat | PInf | NInf | NaN

definition lower :: "char \<Rightarrow> char" where
  "lower c =
     (if 65 \<le> (of_char c :: nat) \<and> (of_char c :: nat) \<le> 90
      then char_of ((of_char c :: nat) + 32) else c)"

definition is_exp_char :: "char \<Rightarrow> bool" where
  "is_exp_char c = (c = CHR ''e'' \<or> c = CHR ''E'')"

text \<open>
  An unsigned decimal number: \<open>digits\<close>, \<open>digits.\<close>, \<open>.digits\<close> or \<open>digits.digits\<close>,
  then an optional exponent \<open>e\<close> or \<open>E\<close> with an optional sign and a digit part.
\<close>

definition mant_val :: "string \<Rightarrow> string \<Rightarrow> rat" where
  "mant_val ip fp =
     of_nat (digits_val ip)
     + of_nat (digits_val fp) / 10 ^ length (filter (\<lambda>c. c \<noteq> CHR ''_'') fp)"

definition float_number :: "string \<Rightarrow> rat option" where
  "float_number s =
     (let mant = takeWhile (\<lambda>c. \<not> is_exp_char c) s;
          rest = dropWhile (\<lambda>c. \<not> is_exp_char c) s;
          ip = takeWhile (\<lambda>c. c \<noteq> CHR ''.'') mant;
          fr = dropWhile (\<lambda>c. c \<noteq> CHR ''.'') mant;
          fp = tl fr;
          (eneg, ebody) = split_sign (tl rest)
      in if (if fr = [] then digitpart ip
             else (ip = [] \<and> digitpart fp) \<or> (digitpart ip \<and> (fp = [] \<or> digitpart fp)))
            \<and> (rest = [] \<or> digitpart ebody)
         then Some (if rest = [] then mant_val ip fp
                    else if eneg then mant_val ip fp / 10 ^ digits_val ebody
                    else mant_val ip fp * 10 ^ digits_val ebody)
         else None)"

text \<open>
  \<open>float(s)\<close>: surrounding whitespace is ignored, one sign is allowed, then either
  \<open>inf\<close>, \<open>infinity\<close> or \<open>nan\<close> in any letter case, or a decimal number. \<open>None\<close>
  stands for the \<open>ValueError\<close> that \<open>float\<close> raises.
\<close>

definition py_float :: "string \<Rightarrow> pyfloat option" where
  "py_float s =
     (let (neg, body) = split_sign (strip s);
          low = map lower body
      in if low = ''inf'' \<or> low = ''infinity'' then Some (if neg then NInf else PInf)
         else if low = ''nan'' then Some NaN
         else map_option (\<lambda>r. Fin (if neg then - r else r)) (float_number body))"

subsection \<open>Float arithmetic, comparison and formatting\<close>

text \<open>
  The exceptions that occur: the \<open>ValueError\<close> of \<open>float\<close> and of \<open>int\<close> (with the
  string that was refused), \<open>IndexError\<close>, the \<open>KeyError\<close> of a missing column, the
  \<open>OverflowError\<close> of an integer too large to become a float, and \<open>LibraryError\<close>
  for whatever the PDF libraries raise.
\<close>

datatype py_error =
    ValueError_float string
  | ValueError_int string
  | IndexError
  | KeyError string
  | OverflowError
  | LibraryError string

text \<open>
  An \<open>int\<close> becomes a float by rounding to the nearest float, ties to even. The
  largest float is \<open>2 ^ 1024 - 2 ^ 971\<close>, so the integers that have a float are those
  of magnitude below \<open>2 ^ 1024 - 2 ^ 970\<close>; for the others the conversion raises
  \<open>OverflowError\<close>.
\<close>

definition int_fits_float :: "int \<Rightarrow> bool" where
  "int_fits_float n = (\<bar>n\<bar> < 2 ^ 1024 - 2 ^ 970)"

text \<open>
  \<open>n * x\<close> for an \<open>int\<close> \<open>n\<close> and a float \<open>x\<close>: \<open>n\<close> is converted first, whatever
  \<open>x\<close> is, and the product is the product of floats. Of a finite product the exact
  value is kept.
\<close>

definition fmul_int :: "int \<Rightarrow> pyfloat \<Rightarrow> py_error + pyfloat" where
  "fmul_int n x =
     (if \<not> int_fits_float n then Inl OverflowError
      else Inr (case x of
                  Fin r \<Rightarrow> Fin (of_int n * r)
                | PInf \<Rightarrow> (if 0 < n then PInf else if n < 0 then NInf else NaN)
                | NInf \<Rightarrow> (if 0 < n then NInf else if n < 0 then PInf else NaN)
                | NaN \<Rightarrow> NaN))"

text \<open>\<open>x - y\<close> on floats.\<close>

fun fsub :: "pyfloat \<Rightarrow> pyfloat \<Rightarrow> pyfloat" where
  "fsub (Fin a) (Fin b) = Fin (a - b)"
| "fsub (Fin a) PInf = NInf"
| "fsub (Fin a) NInf = PInf"
| "fsub PInf (Fin b) = PInf"
| "fsub PInf NInf = PInf"
| "fsub PInf PInf = NaN"
| "fsub NInf (Fin b) = NInf"
| "fsub NInf PInf = NInf"
| "fsub NInf NInf = NaN"
| "fsub NaN y = NaN"
| "fsub x NaN = NaN"

text \<open>\<open>x <= y\<close> on floats: every comparison with NaN is false.\<close>

fun fle :: "pyfloat \<Rightarrow> pyfloat \<Rightarrow> bool" where
  "fle (Fin a) (Fin b) = (a \<le> b)"
| "fle NaN y = False"
| "fle x NaN = False"
| "fle NInf y = True"
| "fle x PInf = True"
| "fle x y = False"

text \<open>\<open>str(n)\<close> for a natural number: its decimal digits.\<close>

fun show_nat :: "nat \<Rightarrow> string" where
  "show_nat n =
     (if n < 10 then [''0123456789'' ! n]
      else show_nat (n div 10) @ [''0123456789'' ! (n mod 10)])"

declare show_nat.simps [simp del]

definition round_half_even :: "rat \<Rightarrow> int" where
  "round_half_even x =
     (let f = \<lfloor>x\<rfloor>; d = x - of_int f
      in if d < 1 / 2 then f
         else if 1 / 2 < d then f + 1
         else if even f then f else f + 1)"

text \<open>
  \<open>f"{x:.2f}"\<close>: two decimal places, the exact value rounded to the nearest hundredth
  with ties to the even digit.
\<close>

fun fmt2 :: "pyfloat \<Rightarrow> string" where
  "fmt2 (Fin r) =
     (let n = nat (round_half_even (\<bar>r\<bar> * 100))
      in (if r < 0 then ''-'' else []) @ show_nat (n div 100) @ ''.''
         @ show_nat (n mod 100 div 10) @ show_nat (n mod 10))"
| "fmt2 PInf = ''inf''"
| "fmt2 NInf = ''-inf''"
| "fmt2 NaN = ''nan''"

section \<open>The data of \<open>table.py\<close>\<close>

text \<open>
  One row of \<open>processed_data\<close>:
  \<open>[name, total_salary, salary_per_hour] + hours + [total_hours]\<close>.
\<close>

record employee_row =
  name :: string
  total_salary :: pyfloat
  salary_per_hour :: pyfloat
  hours :: "int list"
  total_hours :: int

text \<open>The frame \<open>pd.DataFrame(processed_data, columns=columns)\<close>.\<close>

record dataset =
  columns :: "string list"
  data_rows :: "employee_row list"

text \<open>One dictionary appended to \<open>results\<close> in \<open>calculate_deductions\<close>.\<close>

record result_row =
  res_name :: string
  res_total_salary :: pyfloat
  worked_hours :: int
  threshold_hours :: int
  deduction :: pyfloat
  final_salary :: pyfloat

text \<open>
  The frame \<open>pd.DataFrame(results)\<close>. Its columns are the keys of the dictionaries, so
  a frame built from an empty list has no column.
\<close>

record result_frame =
  result_columns :: "string list"
  result_rows :: "result_row list"

datatype cell = CStr string | CInt int

datatype style_val = Colour string | Align string | FontName string | Points nat | Line nat string

type_synonym style_cmd = "string \<times> (int \<times> int) \<times> (int \<times> int) \<times> style_val"

record table =
  table_data :: "cell list list"
  table_style :: "style_cmd list"

text \<open>An \<open>io.BytesIO\<close>: the bytes written and the stream position.\<close>

record buffer =
  content :: string
  position :: nat

text \<open>
  The calls to \<open>streamlit\<close>, in the order they are made. Each constructor stands for
  one call with its message; the values formatted into the message are its arguments.
\<close>

datatype event =
    Title
  | InfoUpload
  | ExtractedText string
  | TotalLines nat
  | SkippingInvalid string py_error
  | NoValidData
  | ProcessedEntries nat
  | ExtractedData dataset
  | SalaryDeductions result_frame
  | ErrorCreatingPdf py_error
  | DownloadButton buffer
  | UnableToProcess
  | ErrorProcessingFile py_error

section \<open>\<open>extract_text_from_pdf\<close>\<close>

text \<open>
  \<open>PdfReader\<close> is a library: the function is given the texts that \<open>extract_text()\<close>
  returns for the pages, and appends them in page order.
\<close>

fun extract_loop :: "string list \<Rightarrow> string \<Rightarrow> string" where
  "extract_loop [] text = text"
| "extract_loop (page # pages) text = extract_loop pages (text @ page)"

definition extract_text_from_pdf :: "string list \<Rightarrow> string" where
  "extract_text_from_pdf pages = extract_loop pages []"

section \<open>\<open>process_pdf_data\<close>\<close>

text \<open>\<open>parts[i]\<close>: raises \<open>IndexError\<close> out of range.\<close>

definition item :: "string list \<Rightarrow> nat \<Rightarrow> py_error + string" where
  "item parts i = (if i < length parts then Inr (parts ! i) else Inl IndexError)"

definition to_float :: "string \<Rightarrow> py_error + pyfloat" where
  "to_float s = (case py_float s of None \<Rightarrow> Inl (ValueError_float s) | Some x \<Rightarrow> Inr x)"

definition to_int :: "string \<Rightarrow> py_error + int" where
  "to_int s = (case py_int s of None \<Rightarrow> Inl (ValueError_int s) | Some n \<Rightarrow> Inr n)"

text \<open>Sequencing of statements that may raise: the first exception ends the block.\<close>

definition bind_err :: "py_error + 'a \<Rightarrow> ('a \<Rightarrow> py_error + 'b) \<Rightarrow> py_error + 'b" where
  "bind_err m f = (case m of Inl e \<Rightarrow> Inl e | Inr x \<Rightarrow> f x)"

text \<open>\<open>[int(h) for h in hs]\<close>: the first token that \<open>int\<close> refuses raises.\<close>

fun ints_of :: "string list \<Rightarrow> py_error + int list" where
  "ints_of [] = Inr []"
| "ints_of (h # hs) =
     (case to_int h of
        Inl e \<Rightarrow> Inl e
      | Inr n \<Rightarrow> (case ints_of hs of Inl e \<Rightarrow> Inl e | Inr ns \<Rightarrow> Inr (n # ns)))"

text \<open>
  The body of the \<open>try\<close> block (lines 29 to 35): the row built from \<open>parts\<close>, or the
  exception raised on the way. \<open>parts[3:10]\<close> is \<open>take 7 (drop 3 parts)\<close>.
\<close>

definition coerce_fields :: "string list \<Rightarrow> py_error + employee_row" where
  "coerce_fields parts =
     bind_err (item parts 0) (\<lambda>nm.
     bind_err (item parts 1) (\<lambda>p1.
     bind_err (to_float (remove_commas p1)) (\<lambda>ts.
     bind_err (item parts 2) (\<lambda>p2.
     bind_err (to_float (remove_commas p2)) (\<lambda>sph.
     bind_err (ints_of (take 7 (drop 3 parts))) (\<lambda>hs.
     bind_err (item parts 10) (\<lambda>p10.
     bind_err (to_int p10) (\<lambda>th.
     Inr \<lparr>name = nm, total_salary = ts, salary_per_hour = sph, hours = hs,
          total_hours = th\<rparr>))))))))"

text \<open>
  The loop over \<open>data_lines\<close> (lines 25 to 37). \<open>msgs\<close> collects the calls to
  \<open>streamlit\<close> made so far, \<open>processed_data\<close> the rows appended so far. A line with
  fewer than 11 tokens takes neither branch of the \<open>try\<close>: nothing is appended and
  nothing is reported.
\<close>

fun parse_loop ::
  "string list \<Rightarrow> event list \<Rightarrow> employee_row list \<Rightarrow> event list \<times> employee_row list" where
  "parse_loop [] msgs processed_data = (msgs, processed_data)"
| "parse_loop (line # rest) msgs processed_data =
     (if 11 \<le> length (split_ws line)
      then (case coerce_fields (split_ws line) of
              Inr row \<Rightarrow> parse_loop rest msgs (processed_data @ [row])
            | Inl e \<Rightarrow> parse_loop rest (msgs @ [SkippingInvalid line e]) processed_data)
      else parse_loop rest msgs processed_data)"

definition day_columns :: "string list" where
  "day_columns = map (\<lambda>i. show_nat i @ ''/09/2024'') [1..<8]"

definition dataset_columns :: "string list" where
  "dataset_columns =
     [''Name'', ''Total Salary'', ''Salary per hour''] @ day_columns @ [''Total Hours'']"

text \<open>\<open>[line.strip() for line in lines[1:] if line.strip()]\<close>.\<close>

definition data_lines :: "string list \<Rightarrow> string list" where
  "data_lines lines = map strip (filter (\<lambda>line. strip line \<noteq> []) (tl lines))"

text \<open>
  The result is the list of calls to \<open>streamlit\<close> and the value returned: \<open>None\<close>, or
  the frame.
\<close>

definition process_pdf_data :: "string \<Rightarrow> event list \<times> dataset option" where
  "process_pdf_data pdf_text =
     (let lines = split_nl pdf_text;
          (msgs, processed_data) = parse_loop (data_lines lines) [TotalLines (length lines)] []
      in if processed_data = [] then (msgs @ [NoValidData], None)
         else (msgs @ [ProcessedEntries (length processed_data)],
               Some \<lparr>columns = dataset_columns, data_rows = processed_data\<rparr>))"

section \<open>\<open>calculate_deductions\<close>\<close>

text \<open>
  Lines 52 to 56: the deduction of one row, or the exception of the product. The
  deduction of the first branch is the integer \<open>0\<close>, written here as the float of the
  same value: the two compare equal, subtract alike and format alike.
\<close>

definition deduction_of :: "int \<Rightarrow> employee_row \<Rightarrow> py_error + pyfloat" where
  "deduction_of threshold row =
     (if threshold \<le> total_hours row then Inr (Fin 0)
      else fmul_int (threshold - total_hours row) (salary_per_hour row))"

text \<open>Lines 58 to 65: the dictionary appended for one row.\<close>

definition result_of :: "int \<Rightarrow> employee_row \<Rightarrow> py_error + result_row" where
  "result_of threshold row =
     (case deduction_of threshold row of
        Inl e \<Rightarrow> Inl e
      | Inr ded \<Rightarrow>
          Inr \<lparr>res_name = name row, res_total_salary = total_salary row,
               worked_hours = total_hours row, threshold_hours = threshold,
               deduction = ded, final_salary = fsub (total_salary row) ded\<rparr>)"

text \<open>
  The loop over the rows of the frame; \<open>results\<close> is the list built so far. An
  exception in the body ends the loop and the function.
\<close>

fun deduction_loop ::
  "employee_row list \<Rightarrow> int \<Rightarrow> result_row list \<Rightarrow> py_error + result_row list" where
  "deduction_loop [] threshold results = Inr results"
| "deduction_loop (row # rest) threshold results =
     (case result_of threshold row of
        Inl e \<Rightarrow> Inl e
      | Inr r \<Rightarrow> deduction_loop rest threshold (results @ [r]))"

definition deduction_columns :: "string list" where
  "deduction_columns =
     [''Name'', ''Total Salary'', ''Worked Hours'', ''Threshold Hours'', ''Deduction'',
      ''Final Salary'']"

definition calculate_deductions :: "dataset \<Rightarrow> int \<Rightarrow> py_error + result_frame" where
  "calculate_deductions df threshold =
     (case deduction_loop (data_rows df) threshold [] of
        Inl e \<Rightarrow> Inl e
      | Inr results \<Rightarrow>
          Inr \<lparr>result_columns = (if results = [] then [] else deduction_columns),
               result_rows = results\<rparr>)"

section \<open>\<open>create_pdf\<close>\<close>

definition style :: "style_cmd list" where
  "style =
     [(''BACKGROUND'', (0, 0), (- 1, 0), Colour ''grey''),
      (''TEXTCOLOR'', (0, 0), (- 1, 0), Colour ''whitesmoke''),
      (''ALIGN'', (0, 0), (- 1, - 1), Align ''CENTER''),
      (''FONTNAME'', (0, 0), (- 1, 0), FontName ''Helvetica-Bold''),
      (''FONTSIZE'', (0, 0), (- 1, 0), Points 12),
      (''BOTTOMPADDING'', (0, 0), (- 1, 0), Points 12),
      (''BACKGROUND'', (0, 1), (- 1, - 1), Colour ''beige''),
      (''TEXTCOLOR'', (0, 1), (- 1, - 1), Colour ''black''),
      (''FONTNAME'', (0, 1), (- 1, - 1), FontName ''Helvetica''),
      (''FONTSIZE'', (0, 1), (- 1, - 1), Points 10),
      (''TOPPADDING'', (0, 1), (- 1, - 1), Points 6),
      (''BOTTOMPADDING'', (0, 1), (- 1, - 1), Points 6),
      (''GRID'', (0, 0), (- 1, - 1), Line 1 ''black'')]"

text \<open>
  One row of \<open>formatted_df.values.tolist()\<close>: the three salary columns replaced by
  their \<open>f"{x:.2f}"\<close> strings (lines 76 to 78), the other columns as they are.
\<close>

definition format_row :: "result_row \<Rightarrow> cell list" where
  "format_row r =
     [CStr (res_name r), CStr (fmt2 (res_total_salary r)), CInt (worked_hours r),
      CInt (threshold_hours r), CStr (fmt2 (deduction r)), CStr (fmt2 (final_salary r))]"

text \<open>\<open>data = [df.columns.tolist()] + formatted_df.values.tolist()\<close>.\<close>

definition table_rows :: "result_frame \<Rightarrow> cell list list" where
  "table_rows df = map CStr (result_columns df) # map format_row (result_rows df)"

text \<open>
  \<open>build\<close> stands for \<open>doc.build(elements)\<close>, the library call inside the \<open>try\<close>
  block: given the table it either raises or writes the bytes of the document to the
  buffer. The three column accesses of lines 76 to 78 come before the \<open>try\<close>: a missing
  column raises \<open>KeyError\<close> out of \<open>create_pdf\<close>. After the build the buffer stands at
  its end, and \<open>buffer.seek(0)\<close> moves it to the start.
\<close>

definition create_pdf ::
  "(table \<Rightarrow> py_error + string) \<Rightarrow> result_frame \<Rightarrow> py_error + (event list \<times> buffer option)" where
  "create_pdf build df =
     (case filter (\<lambda>c. c \<notin> set (result_columns df))
             [''Total Salary'', ''Deduction'', ''Final Salary''] of
        c # cs \<Rightarrow> Inl (KeyError c)
      | [] \<Rightarrow>
          (case build \<lparr>table_data = table_rows df, table_style = style\<rparr> of
             Inr bytes \<Rightarrow>
               Inr ([], Some (\<lparr>content = bytes, position = length bytes\<rparr>\<lparr>position := 0\<rparr>))
           | Inl e \<Rightarrow> Inr ([ErrorCreatingPdf e], None)))"

section \<open>\<open>main\<close>\<close>

text \<open>Line 118: the text shown in the expander, cut after 500 characters.\<close>

definition preview :: "string \<Rightarrow> string" where
  "preview pdf_text =
     (if 500 < length pdf_text then take 500 pdf_text @ ''...'' else pdf_text)"

text \<open>
  One run of the script. \<open>uploaded_file\<close> is \<open>None\<close> when no file was chosen, and
  otherwise what the reader gives for the file: an exception or the page texts.
  \<open>threshold\<close> is the number entered (\<open>threshold_hours\<close>) and \<open>clicked\<close> tells
  whether the button was pressed. An exception inside the outer \<open>try\<close>, such as the
  \<open>OverflowError\<close> of \<open>calculate_deductions\<close>, ends the run with
  \<open>ErrorProcessingFile\<close>, after the calls already made.
\<close>

definition main ::
  "(table \<Rightarrow> py_error + string) \<Rightarrow> (py_error + string list) option \<Rightarrow> int \<Rightarrow> bool
   \<Rightarrow> event list" where
  "main build uploaded_file threshold clicked =
     Title #
     (case uploaded_file of
        None \<Rightarrow> [InfoUpload]
      | Some (Inl e) \<Rightarrow> [ErrorProcessingFile e]
      | Some (Inr pages) \<Rightarrow>
          (let pdf_text = extract_text_from_pdf pages;
               (msgs, df) = process_pdf_data pdf_text
           in ExtractedText (preview pdf_text) # msgs @
              (case df of
                 None \<Rightarrow> [UnableToProcess]
               | Some d \<Rightarrow>
                   if data_rows d = [] then [UnableToProcess]
                   else ExtractedData d #
                     (if clicked
                      then (case calculate_deductions d threshold of
                              Inl e \<Rightarrow> [ErrorProcessingFile e]
                            | Inr result_df \<Rightarrow>
                                SalaryDeductions result_df #
                                (case create_pdf build result_df of
                                   Inl e \<Rightarrow> [ErrorProcessingFile e]
                                 | Inr (ev, None) \<Rightarrow> ev
                                 | Inr (ev, Some buf) \<Rightarrow> ev @ [DownloadButton buf]))
                      else []))))"

section \<open>What the parsing loop does with one line\<close>

text \<open>
  The loop body of \<open>process_pdf_data\<close>, read for a single line: \<open>line_row\<close> is the
  row that the body appends for the line, if it appends one, and \<open>line_warning\<close> is
  the warning that it issues, if it issues one. \<open>accepted_rows\<close> are the rows of the
  frame that \<open>process_pdf_data\<close> returns, and no rows when it returns \<open>None\<close>.
\<close>

definition line_row :: "string \<Rightarrow> employee_row option" where
  "line_row line =
     (if 11 \<le> length (split_ws line)
      then (case coerce_fields (split_ws line) of Inr row \<Rightarrow> Some row | Inl e \<Rightarrow> None)
      else None)"

definition line_warning :: "string \<Rightarrow> event option" where
  "line_warning line =
     (if 11 \<le> length (split_ws line)
      then (case coerce_fields (split_ws line) of
              Inr row \<Rightarrow> None | Inl e \<Rightarrow> Some (SkippingInvalid line e))
      else None)"

definition accepted_rows :: "string \<Rightarrow> employee_row list" where
  "accepted_rows pdf_text =
     (case snd (process_pdf_data pdf_text) of None \<Rightarrow> [] | Some df \<Rightarrow> data_rows df)"

section \<open>Example inputs\<close>

text \<open>
  The header line and the lines of the examples of the specification, the texts built
  from them (lines are separated by a line feed), and the rows they stand for.
\<close>

definition header_line :: string where
  "header_line = ''Name TotalSalary Rate D1 D2 D3 D4 D5 D6 D7 Total''"

definition alice_line :: string where
  "alice_line = ''Alice 2,000.00 25.00 8 8 8 8 8 0 0 40''"

definition alice_row :: employee_row where
  "alice_row = \<lparr>name = ''Alice'', total_salary = Fin 2000, salary_per_hour = Fin 25,
                 hours = [8, 8, 8, 8, 8, 0, 0], total_hours = 40\<rparr>"

text \<open>The frame of Alice's row alone.\<close>

definition alice_dataset :: dataset where
  "alice_dataset =
     \<lparr>columns = dataset_columns,
      data_rows = [\<lparr>name = ''Alice'', total_salary = Fin 2000, salary_per_hour = Fin 25,
                    hours = [8, 8, 8, 8, 8, 0, 0], total_hours = 40\<rparr>]\<rparr>"

text \<open>The record of the line \<open>Bob 100 0 0 0 0 0 0 0 0 0\<close>: an hourly rate of zero.\<close>

definition idle_dataset :: dataset where
  "idle_dataset =
     \<lparr>columns = dataset_columns,
      data_rows = [\<lparr>name = ''Bob'', total_salary = Fin 100, salary_per_hour = Fin 0,
                    hours = [0, 0, 0, 0, 0, 0, 0], total_hours = 0\<rparr>]\<rparr>"

text \<open>The record of the line \<open>Dan 100 -10 0 0 0 0 0 0 0 0\<close>: a negative hourly rate.\<close>

definition debt_dataset :: dataset where
  "debt_dataset =
     \<lparr>columns = dataset_columns,
      data_rows = [\<lparr>name = ''Dan'', total_salary = Fin 100, salary_per_hour = Fin (- 10),
                    hours = [0, 0, 0, 0, 0, 0, 0], total_hours = 0\<rparr>]\<rparr>"

text \<open>
  A record whose total hours token is \<open>-1\<close> followed by 310 zeros: the hours short of
  any threshold of at least \<open>0\<close> are too many for a float.
\<close>

definition deficit_dataset :: dataset where
  "deficit_dataset =
     \<lparr>columns = dataset_columns,
      data_rows = [\<lparr>name = ''Eve'', total_salary = Fin 100, salary_per_hour = Fin 10,
                    hours = [0, 0, 0, 0, 0, 0, 0], total_hours = - (10 ^ 310)\<rparr>]\<rparr>"

text \<open>Alice's result with a threshold of 45 hours, as a frame.\<close>

definition alice_results :: result_frame where
  "alice_results =
     \<lparr>result_columns = deduction_columns,
      result_rows = [\<lparr>res_name = ''Alice'', res_total_salary = Fin 2000, worked_hours = 40,
                      threshold_hours = 45, deduction = Fin 125,
                      final_salary = Fin 1875\<rparr>]\<rparr>"

definition carol_line :: string where
  "carol_line = ''Carol 1,500 20 6 6 6 6 6 0 0 30''"

definition carol_row :: employee_row where
  "carol_row = \<lparr>name = ''Carol'', total_salary = Fin 1500, salary_per_hour = Fin 20,
                 hours = [6, 6, 6, 6, 6, 0, 0], total_hours = 30\<rparr>"

definition short_line_text :: string where
  "short_line_text = header_line @ [CHR 0x0A] @ ''Bob 1 2'' @ [CHR 0x0A] @ alice_line"

definition bad_number_text :: string where
  "bad_number_text =
     header_line @ [CHR 0x0A] @ ''Bob notanumber 10 1 1 1 1 1 1 1 7'' @ [CHR 0x0A] @ alice_line"

definition two_rows_text :: string where
  "two_rows_text =
     header_line @ [CHR 0x0A] @ alice_line @ [CHR 0x0A]
       @ ''Bob notanumber 10 1 1 1 1 1 1 1 7'' @ [CHR 0x0A] @ carol_line"

definition blank_text :: string where
  "blank_text = header_line @ [CHR 0x0A] @ ''   '' @ [CHR 0x0A]"

definition long_line :: string where
  "long_line = alice_line @ '' overtime 99''"

text \<open>
  A line with a negative salary and a negative number of hours, and the row that the
  parser builds from it.
\<close>

definition negative_text :: string where
  "negative_text = header_line @ [CHR 0x0A] @ ''Bob -100.50 10 -1 1 1 1 1 1 1 7''"

definition negative_row :: employee_row where
  "negative_row = \<lparr>name = ''Bob'', total_salary = Fin (- 201 / 2), salary_per_hour = Fin 10,
                    hours = [- 1, 1, 1, 1, 1, 1, 1], total_hours = 7\<rparr>"

text \<open>
  A line whose first hours token has a thousands separator.
\<close>

definition comma_hours_text :: string where
  "comma_hours_text = header_line @ [CHR 0x0A] @ ''Bob 100 10 1,000 1 1 1 1 1 1 7''"

section \<open>The deduction calculator\<close>

lemma result_of_Inr_iff:
  "result_of t row = Inr r \<longleftrightarrow>
     (\<exists>ded. deduction_of t row = Inr ded \<and>
        r = \<lparr>res_name = name row, res_total_salary = total_salary row,
             worked_hours = total_hours row, threshold_hours = t,
             deduction = ded, final_salary = fsub (total_salary row) ded\<rparr>)"
  by (auto simp: result_of_def split: sum.splits)

lemma result_of_Inl_iff:
  "result_of t row = Inl e \<longleftrightarrow>
     e = OverflowError \<and> total_hours row < t \<and> \<not> int_fits_float (t - total_hours row)"
  by (auto simp: result_of_def deduction_of_def fmul_int_def split: sum.splits if_splits)

lemma deduction_loop_Inr:
  "deduction_loop rows t acc = Inr rs \<Longrightarrow>
   \<exists>new. rs = acc @ new \<and> length new = length rows \<and>
     (\<forall>i < length rows. result_of t (rows ! i) = Inr (new ! i))"
proof (induction rows arbitrary: acc)
  case Nil
  then show ?case by simp
next
  case (Cons row rows)
  from Cons.prems obtain r where r: "result_of t row = Inr r"
    and rest: "deduction_loop rows t (acc @ [r]) = Inr rs"
    by (auto split: sum.splits)
  from Cons.IH [OF rest] obtain new where
    new: "rs = (acc @ [r]) @ new" "length new = length rows"
      "\<forall>i < length rows. result_of t (rows ! i) = Inr (new ! i)"
    by blast
  have "\<forall>i < length (row # rows). result_of t ((row # rows) ! i) = Inr ((r # new) ! i)"
    using r new(3) by (auto simp: nth_Cons split: nat.splits)
  with new(1,2) show ?case
    by (intro exI [of _ "r # new"]) simp
qed

lemma deduction_loop_Inl_iff:
  "deduction_loop rows t acc = Inl e \<longleftrightarrow> (\<exists>row \<in> set rows. result_of t row = Inl e)
     \<and> e = OverflowError"
proof (induction rows arbitrary: acc)
  case Nil
  then show ?case by simp
next
  case (Cons row rows)
  show ?case
  proof (cases "result_of t row")
    case (Inl e')
    have e': "e' = OverflowError"
      using Inl by (simp add: result_of_Inl_iff)
    have "deduction_loop (row # rows) t acc = Inl e'"
      using Inl by simp
    with Inl e' show ?thesis by auto
  next
    case (Inr r)
    with Cons.IH [of "acc @ [r]"] show ?thesis by auto
  qed
qed

lemma calculate_deductions_raises:
  "calculate_deductions df t = Inl e \<longleftrightarrow>
     e = OverflowError \<and>
     (\<exists>row \<in> set (data_rows df). total_hours row < t \<and> \<not> int_fits_float (t - total_hours row))"
proof -
  have "calculate_deductions df t = Inl e \<longleftrightarrow> deduction_loop (data_rows df) t [] = Inl e"
    by (simp add: calculate_deductions_def split: sum.splits)
  then show ?thesis
    by (auto simp: deduction_loop_Inl_iff result_of_Inl_iff)
qed

lemma calculate_deductions_Inr:
  assumes "calculate_deductions df t = Inr fr"
  shows "result_columns fr = (if data_rows df = [] then [] else deduction_columns) \<and>
         length (result_rows fr) = length (data_rows df) \<and>
         (\<forall>i < length (data_rows df). result_of t (data_rows df ! i) = Inr (result_rows fr ! i))"
proof -
  from assms obtain rs where loop: "deduction_loop (data_rows df) t [] = Inr rs"
    and fr: "fr = \<lparr>result_columns = (if rs = [] then [] else deduction_columns),
                     result_rows = rs\<rparr>"
    by (auto simp: calculate_deductions_def split: sum.splits)
  from deduction_loop_Inr [OF loop] fr show ?thesis by auto
qed

lemma fmul_int_nonneg:
  "0 < n \<Longrightarrow> fle (Fin 0) x \<Longrightarrow> fmul_int n x = Inr d \<Longrightarrow> fle (Fin 0) d"
  by (cases x) (auto simp: fmul_int_def split: if_splits)

lemma fmul_int_zero_iff:
  "0 < n \<Longrightarrow> fmul_int n x = Inr d \<Longrightarrow> d = Fin 0 \<longleftrightarrow> x = Fin 0"
  by (cases x) (auto simp: fmul_int_def split: if_splits)

lemma row_policy:
  assumes "result_of t row = Inr r"
  shows "res_name r = name row \<and> res_total_salary r = total_salary row \<and>
         worked_hours r = total_hours row \<and> threshold_hours r = t \<and>
         (t \<le> total_hours row \<longrightarrow> deduction r = Fin 0) \<and>
         (total_hours row < t \<longrightarrow>
            fmul_int (t - total_hours row) (salary_per_hour row) = Inr (deduction r)) \<and>
         final_salary r = fsub (total_salary row) (deduction r) \<and>
         (total_hours row < t \<and> fle (Fin 0) (salary_per_hour row)
            \<longrightarrow> fle (Fin 0) (deduction r)) \<and>
         (total_hours row < t \<longrightarrow> (deduction r = Fin 0 \<longleftrightarrow> salary_per_hour row = Fin 0))"
proof -
  from assms obtain ded where ded: "deduction_of t row = Inr ded"
    and r: "r = \<lparr>res_name = name row, res_total_salary = total_salary row,
                  worked_hours = total_hours row, threshold_hours = t,
                  deduction = ded, final_salary = fsub (total_salary row) ded\<rparr>"
    by (auto simp: result_of_Inr_iff)
  have low: "total_hours row < t \<Longrightarrow>
      fmul_int (t - total_hours row) (salary_per_hour row) = Inr ded"
    using ded by (simp add: deduction_of_def)
  have high: "t \<le> total_hours row \<Longrightarrow> ded = Fin 0"
    using ded by (simp add: deduction_of_def)
  have pos: "total_hours row < t \<Longrightarrow> fle (Fin 0) (salary_per_hour row) \<Longrightarrow> fle (Fin 0) ded"
    using low fmul_int_nonneg [of "t - total_hours row" "salary_per_hour row" ded] by simp
  have zero: "total_hours row < t \<Longrightarrow> (ded = Fin 0 \<longleftrightarrow> salary_per_hour row = Fin 0)"
    using low fmul_int_zero_iff [of "t - total_hours row" "salary_per_hour row" ded] by simp
  from low high pos zero show ?thesis by (simp add: r)
qed

text \<open>
  Claim C1, as the code has it. \<open>calculate_deductions\<close> raises \<open>OverflowError\<close>, and
  returns nothing, exactly when some row is below the threshold by a number of hours
  that has no float. For every other frame and threshold it returns one result per
  row, in the order of the rows. The result of a row carries its name, its total
  salary, its total hours as worked hours and the threshold; its deduction is \<open>0\<close> when
  the worked hours reach the threshold and the product \<open>(threshold - worked) * rate\<close>
  otherwise; its final salary is the total salary minus the deduction. Below the
  threshold the deduction is at least \<open>0\<close> when the rate is at least \<open>0\<close>, and it is
  \<open>0\<close> exactly when the rate is \<open>0\<close>. Nothing of this needs the threshold to be
  non-negative.
\<close>

theorem calculate_deductions_policy:
  "(calculate_deductions df t = Inl OverflowError \<longleftrightarrow>
      (\<exists>row \<in> set (data_rows df).
         total_hours row < t \<and> \<not> int_fits_float (t - total_hours row))) \<and>
   ((\<forall>row \<in> set (data_rows df).
       t \<le> total_hours row \<or> int_fits_float (t - total_hours row)) \<longrightarrow>
    (\<exists>fr. calculate_deductions df t = Inr fr \<and>
       length (result_rows fr) = length (data_rows df) \<and>
       (\<forall>i < length (data_rows df).
          res_name (result_rows fr ! i) = name (data_rows df ! i) \<and>
          res_total_salary (result_rows fr ! i) = total_salary (data_rows df ! i) \<and>
          worked_hours (result_rows fr ! i) = total_hours (data_rows df ! i) \<and>
          threshold_hours (result_rows fr ! i) = t \<and>
          (t \<le> total_hours (data_rows df ! i) \<longrightarrow> deduction (result_rows fr ! i) = Fin 0) \<and>
          (total_hours (data_rows df ! i) < t \<longrightarrow>
             fmul_int (t - total_hours (data_rows df ! i)) (salary_per_hour (data_rows df ! i))
               = Inr (deduction (result_rows fr ! i))) \<and>
          final_salary (result_rows fr ! i) =
            fsub (total_salary (data_rows df ! i)) (deduction (result_rows fr ! i)) \<and>
          (total_hours (data_rows df ! i) < t \<and> fle (Fin 0) (salary_per_hour (data_rows df ! i))
             \<longrightarrow> fle (Fin 0) (deduction (result_rows fr ! i))) \<and>
          (total_hours (data_rows df ! i) < t \<longrightarrow>
             (deduction (result_rows fr ! i) = Fin 0
                \<longleftrightarrow> salary_per_hour (data_rows df ! i) = Fin 0)))))"
proof (intro conjI impI)
  show "calculate_deductions df t = Inl OverflowError \<longleftrightarrow>
      (\<exists>row \<in> set (data_rows df).
         total_hours row < t \<and> \<not> int_fits_float (t - total_hours row))"
    by (simp add: calculate_deductions_raises)
next
  assume ok: "\<forall>row \<in> set (data_rows df).
       t \<le> total_hours row \<or> int_fits_float (t - total_hours row)"
  have "\<not> (\<exists>e. calculate_deductions df t = Inl e)"
    using ok by (auto simp: calculate_deductions_raises)
  then obtain fr where fr: "calculate_deductions df t = Inr fr"
    by (cases "calculate_deductions df t") auto
  note c = calculate_deductions_Inr [OF fr]
  have "\<forall>i < length (data_rows df).
          res_name (result_rows fr ! i) = name (data_rows df ! i) \<and>
          res_total_salary (result_rows fr ! i) = total_salary (data_rows df ! i) \<and>
          worked_hours (result_rows fr ! i) = total_hours (data_rows df ! i) \<and>
          threshold_hours (result_rows fr ! i) = t \<and>
          (t \<le> total_hours (data_rows df ! i) \<longrightarrow> deduction (result_rows fr ! i) = Fin 0) \<and>
          (total_hours (data_rows df ! i) < t \<longrightarrow>
             fmul_int (t - total_hours (data_rows df ! i)) (salary_per_hour (data_rows df ! i))
               = Inr (deduction (result_rows fr ! i))) \<and>
          final_salary (result_rows fr ! i) =
            fsub (total_salary (data_rows df ! i)) (deduction (result_rows fr ! i)) \<and>
          (total_hours (data_rows df ! i) < t \<and> fle (Fin 0) (salary_per_hour (data_rows df ! i))
             \<longrightarrow> fle (Fin 0) (deduction (result_rows fr ! i))) \<and>
          (total_hours (data_rows df ! i) < t \<longrightarrow>
             (deduction (result_rows fr ! i) = Fin 0
                \<longleftrightarrow> salary_per_hour (data_rows df ! i) = Fin 0))"
  proof (intro allI impI)
    fix i assume "i < length (data_rows df)"
    with c have "result_of t (data_rows df ! i) = Inr (result_rows fr ! i)" by simp
    then show "res_name (result_rows fr ! i) = name (data_rows df ! i) \<and>
          res_total_salary (result_rows fr ! i) = total_salary (data_rows df ! i) \<and>
          worked_hours (result_rows fr ! i) = total_hours (data_rows df ! i) \<and>
          threshold_hours (result_rows fr ! i) = t \<and>
          (t \<le> total_hours (data_rows df ! i) \<longrightarrow> deduction (result_rows fr ! i) = Fin 0) \<and>
          (total_hours (data_rows df ! i) < t \<longrightarrow>
             fmul_int (t - total_hours (data_rows df ! i)) (salary_per_hour (data_rows df ! i))
               = Inr (deduction (result_rows fr ! i))) \<and>
          final_salary (result_rows fr ! i) =
            fsub (total_salary (data_rows df ! i)) (deduction (result_rows fr ! i)) \<and>
          (total_hours (data_rows df ! i) < t \<and> fle (Fin 0) (salary_per_hour (data_rows df ! i))
             \<longrightarrow> fle (Fin 0) (deduction (result_rows fr ! i))) \<and>
          (total_hours (data_rows df ! i) < t \<longrightarrow>
             (deduction (result_rows fr ! i) = Fin 0
                \<longleftrightarrow> salary_per_hour (data_rows df ! i) = Fin 0))"
      by (rule row_policy)
  qed
  with fr c show "\<exists>fr. calculate_deductions df t = Inr fr \<and>
       length (result_rows fr) = length (data_rows df) \<and>
       (\<forall>i < length (data_rows df).
          res_name (result_rows fr ! i) = name (data_rows df ! i) \<and>
          res_total_salary (result_rows fr ! i) = total_salary (data_rows df ! i) \<and>
          worked_hours (result_rows fr ! i) = total_hours (data_rows df ! i) \<and>
          threshold_hours (result_rows fr ! i) = t \<and>
          (t \<le> total_hours (data_rows df ! i) \<longrightarrow> deduction (result_rows fr ! i) = Fin 0) \<and>
          (total_hours (data_rows df ! i) < t \<longrightarrow>
             fmul_int (t - total_hours (data_rows df ! i)) (salary_per_hour (data_rows df ! i))
               = Inr (deduction (result_rows fr ! i))) \<and>
          final_salary (result_rows fr ! i) =
            fsub (total_salary (data_rows df ! i)) (deduction (result_rows fr ! i)) \<and>
          (total_hours (data_rows df ! i) < t \<and> fle (Fin 0) (salary_per_hour (data_rows df ! i))
             \<longrightarrow> fle (Fin 0) (deduction (result_rows fr ! i))) \<and>
          (total_hours (data_rows df ! i) < t \<longrightarrow>
             (deduction (result_rows fr ! i) = Fin 0
                \<longleftrightarrow> salary_per_hour (data_rows df ! i) = Fin 0)))"
    by blast
qed

lemmas calc_defs =
  calculate_deductions_def result_of_def deduction_of_def fmul_int_def int_fits_float_def

lemma alice_results_eq: "calculate_deductions alice_dataset 45 = Inr alice_results"
  by (simp add: calc_defs alice_dataset_def alice_results_def)

text \<open>
  The theorem at Alice's record with a threshold of 45 hours: five hours short at 25 an
  hour, so 125 is deducted and 1875 remains.
\<close>

theorem calculate_deductions_policy_witness:
  "int_fits_float (45 - 40) \<and>
   calculate_deductions alice_dataset 45 = Inr alice_results \<and>
   length (result_rows alice_results) = 1 \<and>
   worked_hours (result_rows alice_results ! 0) = 40 \<and>
   fmul_int (45 - 40) (Fin 25) = Inr (Fin 125) \<and>
   deduction (result_rows alice_results ! 0) = Fin 125 \<and>
   final_salary (result_rows alice_results ! 0) = Fin 1875 \<and>
   fle (Fin 0) (deduction (result_rows alice_results ! 0))"
  using calculate_deductions_policy [of alice_dataset 45]
  by (simp add: alice_results_eq) (simp add: alice_results_def calc_defs)

text \<open>
  Claim C1 as the specification words it fails in three ways, each at 0 worked hours
  and a threshold of 40. With an hourly rate of zero the deduction is \<open>0\<close> although the
  worked hours are below the threshold. With an hourly rate of \<open>-10\<close> the deduction is
  \<open>-400\<close>, below \<open>0\<close>. With total hours of minus \<open>10 ^ 310\<close> the product raises
  \<open>OverflowError\<close> and there is no result at all.
\<close>

theorem deduction_claim_counterexample:
  "calculate_deductions idle_dataset 40 =
     Inr \<lparr>result_columns = deduction_columns,
          result_rows = [\<lparr>res_name = ''Bob'', res_total_salary = Fin 100, worked_hours = 0,
                          threshold_hours = 40, deduction = Fin 0,
                          final_salary = Fin 100\<rparr>]\<rparr> \<and>
   calculate_deductions debt_dataset 40 =
     Inr \<lparr>result_columns = deduction_columns,
          result_rows = [\<lparr>res_name = ''Dan'', res_total_salary = Fin 100, worked_hours = 0,
                          threshold_hours = 40, deduction = Fin (- 400),
                          final_salary = Fin 500\<rparr>]\<rparr> \<and>
   \<not> fle (Fin 0) (Fin (- 400)) \<and>
   calculate_deductions deficit_dataset 40 = Inl OverflowError"
  by (simp add: calc_defs idle_dataset_def debt_dataset_def deficit_dataset_def)

text \<open>
  In \<open>main\<close> the exception of the calculation is caught by the outer \<open>try\<close>: the frame
  has been shown, and the run ends with \<open>ErrorProcessingFile\<close>.
\<close>

lemma main_calculation_error:
  assumes "process_pdf_data (extract_text_from_pdf pages) = (msgs, Some d)"
    and "calculate_deductions d threshold = Inl e"
  shows "main build (Some (Inr pages)) threshold True =
     Title # ExtractedText (preview (extract_text_from_pdf pages)) # msgs
       @ [ExtractedData d, ErrorProcessingFile e]"
proof -
  have "data_rows d \<noteq> []"
    using assms(2) by (auto simp: calculate_deductions_raises)
  then show ?thesis
    by (simp add: main_def Let_def assms)
qed

section \<open>The loop as a filter over the lines\<close>

lemma parse_loop_eq:
  "parse_loop ls msgs acc =
     (msgs @ List.map_filter line_warning ls, acc @ List.map_filter line_row ls)"
  by (induction ls arbitrary: msgs acc)
     (auto simp: line_row_def line_warning_def List.map_filter_simps split: sum.splits)

lemma map_filter_app:
  "List.map_filter f (xs @ ys) = List.map_filter f xs @ List.map_filter f ys"
  by (simp add: List.map_filter_def)

lemma split_sep_prefix:
  "d \<notin> set h \<Longrightarrow> split_sep d cur (h @ d # rest) = (cur @ h) # split_sep d [] rest"
  by (induction h arbitrary: cur) auto

lemma split_sep_single:
  "d \<notin> set h \<Longrightarrow> split_sep d cur h = [cur @ h]"
  by (induction h arbitrary: cur) auto

lemma split_nl_first:
  "CHR 0x0A \<notin> set h \<Longrightarrow> split_nl (h @ CHR 0x0A # rest) = h # split_nl rest"
  using split_sep_prefix [of "CHR 0x0A" h "[]" rest] by (simp add: split_nl_def)

lemma split_nl_single: "CHR 0x0A \<notin> set h \<Longrightarrow> split_nl h = [h]"
  using split_sep_single [of "CHR 0x0A" h "[]"] by (simp add: split_nl_def)

lemma split_sep_nonempty: "split_sep d cur s \<noteq> []"
  by (induction s arbitrary: cur) auto

lemma line_row_blank: "line_row [] = None"
  by (simp add: line_row_def split_ws_def)

lemma line_warning_blank: "line_warning [] = None"
  by (simp add: line_warning_def split_ws_def)

lemma map_filter_strip_nonblank:
  "f [] = None \<Longrightarrow>
   List.map_filter f (map strip (filter (\<lambda>line. strip line \<noteq> []) xs))
     = List.map_filter (\<lambda>l. f (strip l)) xs"
  by (induction xs) (auto simp: List.map_filter_simps split: option.splits)

lemma map_filter_data_lines:
  "f [] = None \<Longrightarrow>
   List.map_filter f (data_lines ls) = List.map_filter (\<lambda>l. f (strip l)) (tl ls)"
  by (simp add: data_lines_def map_filter_strip_nonblank)

lemma accepted_rows_eq:
  "accepted_rows t = List.map_filter (\<lambda>l. line_row (strip l)) (tl (split_nl t))"
  by (simp add: accepted_rows_def process_pdf_data_def parse_loop_eq Let_def
      map_filter_data_lines line_row_blank)

lemma warnings_eq:
  "fst (parse_loop (data_lines ls) msgs acc)
     = msgs @ List.map_filter (\<lambda>l. line_warning (strip l)) (tl ls)"
  by (simp add: parse_loop_eq map_filter_data_lines line_warning_blank)

lemma rows_eq:
  "snd (parse_loop (data_lines ls) msgs acc)
     = acc @ List.map_filter (\<lambda>l. line_row (strip l)) (tl ls)"
  by (simp add: parse_loop_eq map_filter_data_lines line_row_blank)

lemma process_pdf_data_eq:
  "process_pdf_data t =
     (if accepted_rows t = []
      then (TotalLines (length (split_nl t))
              # List.map_filter (\<lambda>l. line_warning (strip l)) (tl (split_nl t))
              @ [NoValidData], None)
      else (TotalLines (length (split_nl t))
              # List.map_filter (\<lambda>l. line_warning (strip l)) (tl (split_nl t))
              @ [ProcessedEntries (length (accepted_rows t))],
            Some \<lparr>columns = dataset_columns, data_rows = accepted_rows t\<rparr>))"
  by (simp add: accepted_rows_eq process_pdf_data_def Let_def split_beta warnings_eq rows_eq)

lemma tl_as_map_nth: "tl xs = map ((!) xs) [1..<length xs]"
proof -
  have "drop 1 (map ((!) xs) [0..<length xs]) = map ((!) xs) [1..<length xs]"
    by (simp only: drop_map drop_upt) simp
  then show ?thesis by (simp add: map_nth drop_Suc)
qed

lemma map_filter_map_indices:
  "List.map_filter f (map g js)
     = map (\<lambda>i. the (f (g i))) (filter (\<lambda>i. f (g i) \<noteq> None) js)"
  by (induction js) (auto simp: List.map_filter_simps)

lemma map_filter_tl_indices:
  "List.map_filter f (tl xs)
     = map (\<lambda>i. the (f (xs ! i))) (filter (\<lambda>i. f (xs ! i) \<noteq> None) [1..<length xs])"
  by (subst tl_as_map_nth) (rule map_filter_map_indices)

lemma warning_shape:
  "e \<in> set (List.map_filter (\<lambda>l. line_warning (strip l)) xs) \<Longrightarrow>
   \<exists>l err. e = SkippingInvalid l err \<and> 11 \<le> length (split_ws l)"
  by (induction xs) (auto simp: line_warning_def split: option.splits if_splits sum.splits)

lemma accepted_rows_empty_iff:
  "accepted_rows t = [] \<longleftrightarrow>
   (\<forall>i. 1 \<le> i \<and> i < length (split_nl t) \<longrightarrow> line_row (strip (split_nl t ! i)) = None)"
proof -
  have "accepted_rows t = [] \<longleftrightarrow>
        filter (\<lambda>i. line_row (strip (split_nl t ! i)) \<noteq> None) [1..<length (split_nl t)] = []"
    by (simp add: accepted_rows_eq map_filter_tl_indices)
  also have "\<dots> \<longleftrightarrow>
      (\<forall>i. 1 \<le> i \<and> i < length (split_nl t) \<longrightarrow> line_row (strip (split_nl t ! i)) = None)"
    by (auto simp: filter_empty_conv)
  finally show ?thesis .
qed

lemma accepted_row_source:
  assumes "r \<in> set (accepted_rows t)"
  shows "\<exists>i. 1 \<le> i \<and> i < length (split_nl t) \<and> line_row (strip (split_nl t ! i)) = Some r"
proof -
  from assms obtain i where
    "i \<in> set (filter (\<lambda>i. line_row (strip (split_nl t ! i)) \<noteq> None) [1..<length (split_nl t)])"
    and r: "r = the (line_row (strip (split_nl t ! i)))"
    unfolding accepted_rows_eq map_filter_tl_indices by auto
  then have "1 \<le> i \<and> i < length (split_nl t) \<and> line_row (strip (split_nl t ! i)) \<noteq> None"
    by auto
  with r show ?thesis by auto
qed

lemma line_row_SomeD:
  assumes "line_row line = Some r"
  shows "11 \<le> length (split_ws line) \<and> coerce_fields (split_ws line) = Inr r"
  using assms by (auto simp: line_row_def split: if_splits sum.splits)

section \<open>Tokens and field coercion\<close>

lemma item_take: "i < 11 \<Longrightarrow> 11 \<le> length parts \<Longrightarrow> item (take 11 parts) i = item parts i"
  by (simp add: item_def)

lemma slice_take: "take 7 (drop 3 (take 11 parts)) = take 7 (drop 3 parts)"
  by (simp add: drop_take)

lemma coerce_fields_take:
  "11 \<le> length parts \<Longrightarrow> coerce_fields (take 11 parts) = coerce_fields parts"
  by (simp add: coerce_fields_def item_take slice_take)

lemma ints_of_InrD:
  "ints_of hs = Inr ns \<Longrightarrow>
   length ns = length hs \<and> (\<forall>j < length hs. py_int (hs ! j) = Some (ns ! j))"
proof (induction hs arbitrary: ns)
  case Nil
  then show ?case by simp
next
  case (Cons h hs)
  from Cons.prems obtain n ms where
    h: "py_int h = Some n" and ms: "ints_of hs = Inr ms" and ns: "ns = n # ms"
    by (auto simp: to_int_def split: sum.splits option.splits)
  from Cons.IH [OF ms] h ns show ?case
    by (auto simp: nth_Cons split: nat.splits)
qed

lemma coerce_fields_InrD:
  assumes "coerce_fields parts = Inr r"
  shows "10 < length parts \<and> name r = parts ! 0 \<and>
         py_float (remove_commas (parts ! 1)) = Some (total_salary r) \<and>
         py_float (remove_commas (parts ! 2)) = Some (salary_per_hour r) \<and>
         ints_of (take 7 (drop 3 parts)) = Inr (hours r) \<and>
         py_int (parts ! 10) = Some (total_hours r)"
  using assms
  by (auto simp: coerce_fields_def bind_err_def item_def to_float_def to_int_def
      split: sum.splits option.splits if_splits)

lemma hours_tokens:
  assumes "11 \<le> length parts" and "ints_of (take 7 (drop 3 parts)) = Inr ns"
  shows "length ns = 7 \<and> (\<forall>j < 7. py_int (parts ! (3 + j)) = Some (ns ! j))"
  using ints_of_InrD [OF assms(2)] assms(1) by (auto simp: min_def)

lemma split_acc_tokens:
  "\<forall>c \<in> set cur. \<not> is_space c \<Longrightarrow>
   \<forall>tok \<in> set (split_acc cur s). tok \<noteq> [] \<and> (\<forall>c \<in> set tok. \<not> is_space c)"
proof (induction s arbitrary: cur)
  case Nil
  then show ?case by auto
next
  case (Cons a s)
  show ?case
  proof (cases "is_space a")
    case True
    with Cons.IH [of "[]"] Cons.prems show ?thesis by auto
  next
    case False
    with Cons.IH [of "cur @ [a]"] Cons.prems show ?thesis by auto
  qed
qed

lemma split_ws_tokens:
  "tok \<in> set (split_ws s) \<Longrightarrow> tok \<noteq> [] \<and> (\<forall>c \<in> set tok. \<not> is_space c)"
  using split_acc_tokens [of "[]" s] by (simp add: split_ws_def)

lemma concat_split_acc:
  "concat (split_acc cur s) = cur @ filter (\<lambda>c. \<not> is_space c) s"
  by (induction s arbitrary: cur) auto

lemma concat_split_ws: "concat (split_ws s) = filter (\<lambda>c. \<not> is_space c) s"
  by (simp add: split_ws_def concat_split_acc)

lemma in_dropWhile: "c \<in> set s \<Longrightarrow> \<not> P c \<Longrightarrow> c \<in> set (dropWhile P s)"
  by (induction s) auto

lemma in_strip: "c \<in> set s \<Longrightarrow> \<not> is_space c \<Longrightarrow> c \<in> set (strip s)"
  by (simp add: strip_def in_dropWhile)

lemma digitpart_chars: "digitpart s \<Longrightarrow> c \<in> set s \<Longrightarrow> is_digit c \<or> c = CHR ''_''"
  by (induction s rule: digitpart.induct) (auto split: if_splits)

lemma comma_plain:
  "\<not> is_space CHR '',''" "\<not> is_digit CHR '',''" "CHR '','' \<noteq> CHR ''_''"
  by (simp_all add: is_space_def is_digit_def)

lemma py_int_no_comma: "py_int s = Some n \<Longrightarrow> CHR '','' \<notin> set s"
proof
  assume ok: "py_int s = Some n" and "CHR '','' \<in> set s"
  then have in_strip: "CHR '','' \<in> set (strip s)"
    by (simp add: in_strip comma_plain)
  from ok have dp: "digitpart (snd (split_sign (strip s)))"
    by (auto simp: py_int_def split_beta split: if_splits)
  from in_strip have "CHR '','' \<in> set (snd (split_sign (strip s)))"
    by (cases "strip s") (auto simp: split_sign_def)
  with dp show False
    using digitpart_chars comma_plain by blast
qed

lemma remove_commas_idem: "remove_commas (remove_commas s) = remove_commas s"
  by (simp add: remove_commas_def)

lemma coerce_fields_commas:
  "11 \<le> length parts \<Longrightarrow>
   coerce_fields (parts[1 := remove_commas (parts ! 1), 2 := remove_commas (parts ! 2)])
     = coerce_fields parts"
  by (simp add: coerce_fields_def item_def bind_err_def drop_update_cancel
      remove_commas_idem nth_list_update)

section \<open>The example texts, evaluated\<close>

lemmas eval_defs =
  line_row_def line_warning_def split_ws_def is_space_def coerce_fields_def bind_err_def
  item_def to_float_def to_int_def remove_commas_def py_float_def py_int_def split_sign_def
  strip_def float_number_def mant_val_def digits_val_def digit_val_def is_digit_def
  is_exp_char_def lower_def

lemmas text_defs =
  process_pdf_data_eq accepted_rows_eq split_nl_def header_line_def alice_line_def
  List.map_filter_simps

lemma short_line_text_result:
  "process_pdf_data short_line_text = ([TotalLines 3, ProcessedEntries 1], Some alice_dataset)"
  by (simp add: short_line_text_def text_defs eval_defs alice_dataset_def)

lemma bad_number_text_result:
  "process_pdf_data bad_number_text =
     ([TotalLines 3,
       SkippingInvalid ''Bob notanumber 10 1 1 1 1 1 1 1 7'' (ValueError_float ''notanumber''),
       ProcessedEntries 1], Some alice_dataset)"
  by (simp add: bad_number_text_def text_defs eval_defs alice_dataset_def)

lemma negative_text_result:
  "process_pdf_data negative_text =
     ([TotalLines 2, ProcessedEntries 1],
      Some \<lparr>columns = dataset_columns, data_rows = [negative_row]\<rparr>)"
  by (simp add: negative_text_def text_defs eval_defs negative_row_def)

lemma comma_hours_text_result:
  "process_pdf_data comma_hours_text =
     ([TotalLines 2,
       SkippingInvalid ''Bob 100 10 1,000 1 1 1 1 1 1 7'' (ValueError_int ''1,000''),
       NoValidData], None)"
  by (simp add: comma_hours_text_def text_defs eval_defs)

lemma blank_text_result:
  "process_pdf_data blank_text = ([TotalLines 3, NoValidData], None)"
  by (simp add: blank_text_def text_defs eval_defs)

lemma extract_single: "extract_text_from_pdf [t] = t"
  by (simp add: extract_text_from_pdf_def)

section \<open>The record parser\<close>

text \<open>
  Claim C2, as the code has it. Every row that the parser retains comes from one line
  after the first that has at least 11 tokens. Its name is token 0, which is not empty
  and holds no whitespace; its total salary and its hourly rate are what \<open>float\<close>
  reads from tokens 1 and 2 once their commas are removed; its hours are exactly 7
  integers, what \<open>int\<close> reads from tokens 3 to 9; its total hours are what \<open>int\<close> reads
  from token 10. Nothing constrains the sign of a number.
\<close>

theorem retained_record_shape:
  "r \<in> set (accepted_rows t) \<longrightarrow>
     name r \<noteq> [] \<and> (\<forall>c \<in> set (name r). \<not> is_space c) \<and> length (hours r) = 7 \<and>
     (\<exists>i. 1 \<le> i \<and> i < length (split_nl t) \<and>
        11 \<le> length (split_ws (strip (split_nl t ! i))) \<and>
        name r = split_ws (strip (split_nl t ! i)) ! 0 \<and>
        py_float (remove_commas (split_ws (strip (split_nl t ! i)) ! 1)) = Some (total_salary r) \<and>
        py_float (remove_commas (split_ws (strip (split_nl t ! i)) ! 2))
          = Some (salary_per_hour r) \<and>
        (\<forall>j < 7. py_int (split_ws (strip (split_nl t ! i)) ! (3 + j)) = Some (hours r ! j)) \<and>
        py_int (split_ws (strip (split_nl t ! i)) ! 10) = Some (total_hours r))"
proof
  assume "r \<in> set (accepted_rows t)"
  then obtain i where i: "1 \<le> i" "i < length (split_nl t)"
    and row: "line_row (strip (split_nl t ! i)) = Some r"
    using accepted_row_source by blast
  define parts where "parts = split_ws (strip (split_nl t ! i))"
  from row have len: "11 \<le> length parts" and co: "coerce_fields parts = Inr r"
    unfolding parts_def by (simp_all add: line_row_SomeD)
  note f = coerce_fields_InrD [OF co]
  from f len have h: "length (hours r) = 7 \<and> (\<forall>j < 7. py_int (parts ! (3 + j)) = Some (hours r ! j))"
    using hours_tokens by blast
  from len have "0 < length parts" by linarith
  then have "parts ! 0 \<in> set parts" by (rule nth_mem)
  then have tok: "parts ! 0 \<noteq> [] \<and> (\<forall>c \<in> set (parts ! 0). \<not> is_space c)"
    unfolding parts_def by (rule split_ws_tokens)
  from tok f h have "name r \<noteq> [] \<and> (\<forall>c \<in> set (name r). \<not> is_space c) \<and> length (hours r) = 7"
    by simp
  moreover from i len f h have "\<exists>i. 1 \<le> i \<and> i < length (split_nl t) \<and>
        11 \<le> length (split_ws (strip (split_nl t ! i))) \<and>
        name r = split_ws (strip (split_nl t ! i)) ! 0 \<and>
        py_float (remove_commas (split_ws (strip (split_nl t ! i)) ! 1)) = Some (total_salary r) \<and>
        py_float (remove_commas (split_ws (strip (split_nl t ! i)) ! 2))
          = Some (salary_per_hour r) \<and>
        (\<forall>j < 7. py_int (split_ws (strip (split_nl t ! i)) ! (3 + j)) = Some (hours r ! j)) \<and>
        py_int (split_ws (strip (split_nl t ! i)) ! 10) = Some (total_hours r)"
    unfolding parts_def by (intro exI [of _ i]) simp
  ultimately show "name r \<noteq> [] \<and> (\<forall>c \<in> set (name r). \<not> is_space c) \<and> length (hours r) = 7 \<and>
     (\<exists>i. 1 \<le> i \<and> i < length (split_nl t) \<and>
        11 \<le> length (split_ws (strip (split_nl t ! i))) \<and>
        name r = split_ws (strip (split_nl t ! i)) ! 0 \<and>
        py_float (remove_commas (split_ws (strip (split_nl t ! i)) ! 1)) = Some (total_salary r) \<and>
        py_float (remove_commas (split_ws (strip (split_nl t ! i)) ! 2))
          = Some (salary_per_hour r) \<and>
        (\<forall>j < 7. py_int (split_ws (strip (split_nl t ! i)) ! (3 + j)) = Some (hours r ! j)) \<and>
        py_int (split_ws (strip (split_nl t ! i)) ! 10) = Some (total_hours r))"
    by blast
qed

text \<open>
  The theorem at the line \<open>Bob -100.50 10 -1 1 1 1 1 1 1 7\<close>.
\<close>

theorem retained_record_shape_witness:
  "negative_row \<in> set (accepted_rows negative_text) \<and>
   name negative_row = ''Bob'' \<and> length (hours negative_row) = 7 \<and>
   py_int ''-1'' = Some (hours negative_row ! 0)"
  using retained_record_shape [of negative_row negative_text]
  by (simp add: accepted_rows_def negative_text_result negative_row_def eval_defs)

text \<open>
  Claim C2 as the specification words it asks for salaries and hours that are not
  negative. The line \<open>Bob -100.50 10 -1 1 1 1 1 1 1 7\<close> is retained with a total
  salary of \<open>-100.5\<close> and \<open>-1\<close> hours on the first day.
\<close>

theorem negative_values_retained:
  "snd (process_pdf_data negative_text)
     = Some \<lparr>columns = dataset_columns, data_rows = [negative_row]\<rparr> \<and>
   total_salary negative_row = Fin (- 201 / 2) \<and>
   \<not> fle (Fin 0) (total_salary negative_row) \<and>
   hours negative_row ! 0 = - 1"
  by (simp add: negative_text_result negative_row_def)

lemma main_no_dataset:
  "snd (process_pdf_data (extract_text_from_pdf pages)) = None \<Longrightarrow>
   main build (Some (Inr pages)) threshold clicked =
     Title # ExtractedText (preview (extract_text_from_pdf pages))
       # fst (process_pdf_data (extract_text_from_pdf pages)) @ [UnableToProcess]"
  by (simp add: main_def Let_def split_beta)

text \<open>
  Claim C3. \<open>process_pdf_data\<close> returns \<open>None\<close> exactly when no line after the first
  yields a row, however many lines were refused, and exactly then it reports
  \<open>NoValidData\<close>; a frame it returns has at least one row. When it returns \<open>None\<close>,
  \<open>main\<close> shows the text and the messages of the parser, then \<open>UnableToProcess\<close>, and
  nothing else: no frame is shown, no deduction is calculated and no document is
  built.
\<close>

theorem empty_dataset_iff:
  "(snd (process_pdf_data t) = None \<longleftrightarrow>
      (\<forall>i. 1 \<le> i \<and> i < length (split_nl t) \<longrightarrow> line_row (strip (split_nl t ! i)) = None)) \<and>
   (snd (process_pdf_data t) = None \<longleftrightarrow> NoValidData \<in> set (fst (process_pdf_data t))) \<and>
   (\<forall>df. snd (process_pdf_data t) = Some df \<longrightarrow> data_rows df \<noteq> []) \<and>
   (snd (process_pdf_data (extract_text_from_pdf pages)) = None \<longrightarrow>
      main build (Some (Inr pages)) threshold clicked =
        Title # ExtractedText (preview (extract_text_from_pdf pages))
          # fst (process_pdf_data (extract_text_from_pdf pages)) @ [UnableToProcess])"
proof -
  have a: "snd (process_pdf_data t) = None \<longleftrightarrow> accepted_rows t = []"
    by (simp add: process_pdf_data_eq)
  have b: "snd (process_pdf_data t) = None \<longleftrightarrow> NoValidData \<in> set (fst (process_pdf_data t))"
    by (auto simp: process_pdf_data_eq dest: warning_shape)
  have c: "\<forall>df. snd (process_pdf_data t) = Some df \<longrightarrow> data_rows df \<noteq> []"
    by (auto simp: process_pdf_data_eq split: if_splits)
  show ?thesis
    using a b c main_no_dataset [of pages build threshold clicked]
    by (simp add: accepted_rows_empty_iff)
qed

text \<open>
  The theorem at a text of a header line and blank lines only. Of the two other texts,
  each with one refused line, the first yields no frame and the second yields one.
\<close>

theorem empty_dataset_iff_witness:
  "snd (process_pdf_data blank_text) = None \<and>
   snd (process_pdf_data comma_hours_text) = None \<and>
   snd (process_pdf_data bad_number_text) = Some alice_dataset \<and>
   NoValidData \<in> set (fst (process_pdf_data blank_text)) \<and>
   main (\<lambda>tbl. Inr []) (Some (Inr [blank_text])) 40 True =
     [Title, ExtractedText blank_text, TotalLines 3, NoValidData, UnableToProcess]"
  using empty_dataset_iff [of blank_text "[blank_text]" "\<lambda>tbl. Inr []" 40 True]
  by (simp add: blank_text_result comma_hours_text_result bad_number_text_result
      extract_single)
     (simp add: preview_def blank_text_def header_line_def)

text \<open>
  Claim C4, as the code has it. A line with fewer than 11 tokens, wherever it stands
  among the data lines, changes neither the rows nor the messages, and the lines after
  it are parsed as if it were absent: it is skipped without a warning. Every warning of
  \<open>process_pdf_data\<close> is about a line with at least 11 tokens.
\<close>

theorem short_line_skipped:
  "(length (split_ws line) < 11 \<longrightarrow>
      parse_loop (before @ line # after) msgs acc = parse_loop (before @ after) msgs acc) \<and>
   (SkippingInvalid l e \<in> set (fst (process_pdf_data t)) \<longrightarrow> 11 \<le> length (split_ws l))"
proof -
  have "length (split_ws line) < 11 \<Longrightarrow>
      parse_loop (before @ line # after) msgs acc = parse_loop (before @ after) msgs acc"
    by (simp add: parse_loop_eq map_filter_app line_row_def line_warning_def)
  moreover have
    "SkippingInvalid l e \<in> set (fst (process_pdf_data t)) \<Longrightarrow> 11 \<le> length (split_ws l)"
    by (auto simp: process_pdf_data_eq split: if_splits dest: warning_shape)
  ultimately show ?thesis by blast
qed

text \<open>
  The theorem at the line \<open>Bob 1 2\<close> followed by Alice's line.
\<close>

theorem short_line_skipped_witness:
  "length (split_ws ''Bob 1 2'') < 11 \<and>
   parse_loop ([] @ ''Bob 1 2'' # [alice_line]) [] [] = parse_loop ([] @ [alice_line]) [] [] \<and>
   parse_loop [alice_line] [] [] = ([], [alice_row])"
  using short_line_skipped [of "''Bob 1 2''" "[]" "[alice_line]" "[]" "[]"]
  by (simp add: parse_loop_eq alice_line_def alice_row_def eval_defs)

text \<open>
  Claim C4 as the specification words it has the short line recorded with a reason.
  In the text below the second line is \<open>Bob 1 2\<close>, of 3 tokens; the messages are the
  line count and the number of rows, with nothing about that line, and Alice's line
  after it is accepted.
\<close>

theorem short_line_not_reported:
  "split_nl short_line_text ! 1 = ''Bob 1 2'' \<and>
   length (split_ws ''Bob 1 2'') = 3 \<and>
   process_pdf_data short_line_text = ([TotalLines 3, ProcessedEntries 1], Some alice_dataset)"
  by (simp add: short_line_text_def text_defs eval_defs alice_dataset_def)

text \<open>
  Claim C5, as the code has it. Commas are removed from tokens 1 and 2, the total
  salary and the hourly rate, before \<open>float\<close> reads them: a line is coerced exactly as
  the same line with these two tokens free of commas. The hours tokens 3 to 9 and the
  total hours token 10 are read by \<open>int\<close> as they stand, so in a row that is built
  none of them holds a comma. A comma is not whitespace, so it never separates tokens:
  the tokens of a line, put together, are the line without its whitespace.
\<close>

theorem commas_stripped_for_salaries:
  "(11 \<le> length parts \<longrightarrow>
      coerce_fields (parts[1 := remove_commas (parts ! 1), 2 := remove_commas (parts ! 2)])
        = coerce_fields parts) \<and>
   (coerce_fields parts = Inr r \<longrightarrow>
      py_float (remove_commas (parts ! 1)) = Some (total_salary r) \<and>
      py_float (remove_commas (parts ! 2)) = Some (salary_per_hour r) \<and>
      (\<forall>j < 7. py_int (parts ! (3 + j)) = Some (hours r ! j)
                \<and> CHR '','' \<notin> set (parts ! (3 + j))) \<and>
      py_int (parts ! 10) = Some (total_hours r) \<and> CHR '','' \<notin> set (parts ! 10)) \<and>
   concat (split_ws line) = filter (\<lambda>c. \<not> is_space c) line \<and>
   \<not> is_space (CHR '','')"
proof -
  have b: "coerce_fields parts = Inr r \<Longrightarrow>
      py_float (remove_commas (parts ! 1)) = Some (total_salary r) \<and>
      py_float (remove_commas (parts ! 2)) = Some (salary_per_hour r) \<and>
      (\<forall>j < 7. py_int (parts ! (3 + j)) = Some (hours r ! j)
                \<and> CHR '','' \<notin> set (parts ! (3 + j))) \<and>
      py_int (parts ! 10) = Some (total_hours r) \<and> CHR '','' \<notin> set (parts ! 10)"
  proof -
    assume co: "coerce_fields parts = Inr r"
    note f = coerce_fields_InrD [OF co]
    from f have len: "11 \<le> length parts" by simp
    from hours_tokens [OF len] f
    have h: "\<forall>j < 7. py_int (parts ! (3 + j)) = Some (hours r ! j)" by blast
    from f h show ?thesis by (auto dest: py_int_no_comma)
  qed
  have a: "11 \<le> length parts \<Longrightarrow>
      coerce_fields (parts[1 := remove_commas (parts ! 1), 2 := remove_commas (parts ! 2)])
        = coerce_fields parts"
    by (rule coerce_fields_commas)
  have c: "concat (split_ws line) = filter (\<lambda>c. \<not> is_space c) line"
    by (rule concat_split_ws)
  have d: "\<not> is_space (CHR '','')"
    by (rule comma_plain)
  from a b c d show ?thesis by blast
qed

text \<open>
  The theorem at Alice's line, whose total salary is written \<open>2,000.00\<close>.
\<close>

theorem commas_stripped_for_salaries_witness:
  "11 \<le> length (split_ws alice_line) \<and>
   coerce_fields (split_ws alice_line) = Inr alice_row \<and>
   coerce_fields ((split_ws alice_line)[1 := ''2000.00'']) = Inr alice_row \<and>
   py_float (remove_commas ''2,000.00'') = Some (Fin 2000)"
  using commas_stripped_for_salaries [of "split_ws alice_line" alice_row alice_line]
  by (simp add: alice_line_def alice_row_def eval_defs)

text \<open>
  Claim C5 as the specification words it has commas removed from the hours tokens as
  well. The line \<open>Bob 100 10 1,000 1 1 1 1 1 1 7\<close> is refused: \<open>int\<close> raises on
  \<open>1,000\<close>.
\<close>

theorem comma_in_hours_rejected:
  "process_pdf_data comma_hours_text =
     ([TotalLines 2,
       SkippingInvalid ''Bob 100 10 1,000 1 1 1 1 1 1 7'' (ValueError_int ''1,000''),
       NoValidData], None)"
  by (simp add: comma_hours_text_def text_defs eval_defs)

text \<open>
  Claim C6. The rows come from the lines after the first only. A text of a single line
  yields no frame, whatever the line is; and replacing the first line of a text by
  another line changes nothing of what \<open>process_pdf_data\<close> returns or reports.
\<close>

theorem first_line_dropped:
  "accepted_rows t = List.map_filter (\<lambda>l. line_row (strip l)) (tl (split_nl t)) \<and>
   (CHR 0x0A \<notin> set h \<longrightarrow>
      snd (process_pdf_data h) = None \<and>
      accepted_rows (h @ CHR 0x0A # rest)
        = List.map_filter (\<lambda>l. line_row (strip l)) (split_nl rest) \<and>
      (CHR 0x0A \<notin> set h' \<longrightarrow>
         process_pdf_data (h @ CHR 0x0A # rest) = process_pdf_data (h' @ CHR 0x0A # rest)))"
  by (simp add: process_pdf_data_eq accepted_rows_eq split_nl_first split_nl_single)

text \<open>
  The theorem at Alice's line as the first line: alone it yields nothing although it
  would be coerced as a data line, and followed by itself it yields one row.
\<close>

theorem first_line_dropped_witness:
  "line_row alice_line = Some alice_row \<and>
   snd (process_pdf_data alice_line) = None \<and>
   process_pdf_data (alice_line @ CHR 0x0A # alice_line)
     = ([TotalLines 2, ProcessedEntries 1], Some alice_dataset)"
  using first_line_dropped [of alice_line alice_line alice_line header_line]
  by (simp add: alice_line_def alice_row_def alice_dataset_def text_defs eval_defs)

text \<open>
  Claim C7. The accepted rows are in the order of their lines: there is an increasing
  list of line numbers, holding exactly the numbers of the lines after the first that
  yield a row, such that the k-th accepted row is the row of the k-th of these lines.
\<close>

theorem parsing_preserves_order:
  "\<exists>idx. sorted_wrt (<) idx \<and>
     (\<forall>i. i \<in> set idx \<longleftrightarrow>
        1 \<le> i \<and> i < length (split_nl t) \<and> line_row (strip (split_nl t ! i)) \<noteq> None) \<and>
     length (accepted_rows t) = length idx \<and>
     (\<forall>k < length idx.
        line_row (strip (split_nl t ! (idx ! k))) = Some (accepted_rows t ! k))"
proof -
  define idx where
    "idx = filter (\<lambda>i. line_row (strip (split_nl t ! i)) \<noteq> None) [1..<length (split_nl t)]"
  have rows: "accepted_rows t = map (\<lambda>i. the (line_row (strip (split_nl t ! i)))) idx"
    unfolding idx_def accepted_rows_eq by (rule map_filter_tl_indices)
  have "sorted_wrt (<) idx"
    unfolding idx_def by (rule sorted_wrt_filter) simp
  moreover have "\<forall>i. i \<in> set idx \<longleftrightarrow>
      1 \<le> i \<and> i < length (split_nl t) \<and> line_row (strip (split_nl t ! i)) \<noteq> None"
    unfolding idx_def by auto
  moreover have "length (accepted_rows t) = length idx"
    by (simp add: rows)
  moreover have "\<forall>k < length idx.
      line_row (strip (split_nl t ! (idx ! k))) = Some (accepted_rows t ! k)"
  proof (intro allI impI)
    fix k assume k: "k < length idx"
    then have "idx ! k \<in> set idx" by simp
    then have "line_row (strip (split_nl t ! (idx ! k))) \<noteq> None"
      unfolding idx_def by simp
    with k show "line_row (strip (split_nl t ! (idx ! k))) = Some (accepted_rows t ! k)"
      by (auto simp: rows)
  qed
  ultimately show ?thesis by blast
qed

text \<open>
  The theorem at a text whose lines 1 and 3 are accepted and whose line 2 is refused.
\<close>

theorem parsing_preserves_order_witness:
  "accepted_rows two_rows_text = [alice_row, carol_row] \<and>
   line_row (strip (split_nl two_rows_text ! 1)) = Some alice_row \<and>
   line_row (strip (split_nl two_rows_text ! 2)) = None \<and>
   line_row (strip (split_nl two_rows_text ! 3)) = Some carol_row"
  using parsing_preserves_order [of two_rows_text]
  by (simp add: two_rows_text_def carol_line_def text_defs eval_defs alice_row_def
      carol_row_def)

text \<open>
  Claim C10. A line with more than 11 tokens is coerced as its first 11 tokens are:
  when these give a row, that row is appended and the loop goes on with the next line.
\<close>

theorem extra_tokens_ignored:
  "11 < length (split_ws line) \<longrightarrow>
     coerce_fields (split_ws line) = coerce_fields (take 11 (split_ws line)) \<and>
     (coerce_fields (take 11 (split_ws line)) = Inr r \<longrightarrow>
        parse_loop (line # rest) msgs acc = parse_loop rest msgs (acc @ [r]))"
  by (simp add: coerce_fields_take)

text \<open>
  The theorem at Alice's line with two more tokens at its end.
\<close>

theorem extra_tokens_ignored_witness:
  "11 < length (split_ws long_line) \<and>
   coerce_fields (take 11 (split_ws long_line)) = Inr alice_row \<and>
   parse_loop [long_line] [] [] = ([], [alice_row])"
  using extra_tokens_ignored [of long_line alice_row "[]" "[]" "[]"]
  by (simp add: long_line_def alice_line_def alice_row_def eval_defs)

section \<open>The report renderer\<close>

text \<open>
  A frame calculated from at least one row has the six result columns. A frame
  calculated from no row has no column, and \<open>create_pdf\<close> raises \<open>KeyError\<close> on it
  before it reaches the \<open>try\<close> block; \<open>main\<close> never renders such a frame.
\<close>

lemma calculate_columns:
  "data_rows df \<noteq> [] \<Longrightarrow> calculate_deductions df t = Inr fr \<Longrightarrow>
   result_columns fr = deduction_columns"
  by (simp add: calculate_deductions_Inr)

lemma empty_frame_key_error:
  "data_rows df = [] \<Longrightarrow>
   \<exists>fr. calculate_deductions df t = Inr fr \<and>
        create_pdf build fr = Inl (KeyError ''Total Salary'')"
  by (simp add: calculate_deductions_def create_pdf_def)

text \<open>
  Claim C8. For every frame of results, that is every frame that has the three salary
  columns, \<open>create_pdf\<close> reports \<open>ErrorCreatingPdf\<close> and returns \<open>None\<close> when the build
  raises, and otherwise returns the buffer of the bytes written, positioned at 0. So it
  returns \<open>None\<close> exactly when the build raises.
\<close>

theorem create_pdf_outcome:
  "{''Total Salary'', ''Deduction'', ''Final Salary''} \<subseteq> set (result_columns df) \<longrightarrow>
     (case build \<lparr>table_data = table_rows df, table_style = style\<rparr> of
        Inl e \<Rightarrow> create_pdf build df = Inr ([ErrorCreatingPdf e], None)
      | Inr bytes \<Rightarrow>
          create_pdf build df = Inr ([], Some \<lparr>content = bytes, position = 0\<rparr>)) \<and>
     ((\<exists>ev. create_pdf build df = Inr (ev, None))
        \<longleftrightarrow> (\<exists>e. build \<lparr>table_data = table_rows df, table_style = style\<rparr> = Inl e))"
  by (auto simp: create_pdf_def split: sum.splits)

text \<open>
  The theorem at Alice's result for a threshold of 45 hours (\<open>alice_results_eq\<close>),
  with a build that succeeds and with one that raises.
\<close>

theorem create_pdf_outcome_witness:
  "create_pdf (\<lambda>tbl. Inr ''%PDF'') alice_results
     = Inr ([], Some \<lparr>content = ''%PDF'', position = 0\<rparr>) \<and>
   create_pdf (\<lambda>tbl. Inl (LibraryError ''layout'')) alice_results
     = Inr ([ErrorCreatingPdf (LibraryError ''layout'')], None)"
  using create_pdf_outcome [of alice_results "\<lambda>tbl. Inr ''%PDF''"]
    create_pdf_outcome [of alice_results "\<lambda>tbl. Inl (LibraryError ''layout'')"]
  by (simp add: alice_results_def deduction_columns_def)






end
